theory Spec2Isabelle
  imports Main
begin

section \<open>User records\<close>

text \<open>
  The module \<^verbatim>\<open>server/src/data/users.ts\<close> keeps user accounts in a MongoDB
  collection. A \<^verbatim>\<open>User\<close> object has the fields \<^verbatim>\<open>_id\<close>, \<^verbatim>\<open>email\<close>,
  \<^verbatim>\<open>username\<close>, \<^verbatim>\<open>password\<close> and \<^verbatim>\<open>articles\<close>. The field
  \<^verbatim>\<open>_id\<close> is absent on the object literal that \<^verbatim>\<open>createUser\<close> builds, holds
  the driver's \<^verbatim>\<open>ObjectId\<close> on a stored document and a plain string once
  \<^verbatim>\<open>cleanUserObject\<close> has run; \<^verbatim>\<open>articles\<close> is absent until the first
  \<^verbatim>\<open>$addToSet\<close>.
\<close>

datatype objectid = ObjectId nat

datatype ident = Native objectid | Plain string

record user =
  user_id :: "ident option"
  email :: string
  username :: string
  password :: string
  articles :: "string list option"

text \<open>
  The lower-case hexadecimal rendering of an \<^verbatim>\<open>ObjectId\<close>: twelve bytes, so 24
  digits. \<^verbatim>\<open>toString\<close> on a string is the string itself.
\<close>

definition hexdigit :: "nat \<Rightarrow> char" where
  "hexdigit d = ''0123456789abcdef'' ! (d mod 16)"

fun hex_of :: "nat \<Rightarrow> nat \<Rightarrow> string" where
  "hex_of 0 n = []"
| "hex_of (Suc w) n = hex_of w (n div 16) @ [hexdigit n]"

fun toHexString :: "objectid \<Rightarrow> string" where
  "toHexString (ObjectId n) = hex_of 24 n"

fun toString :: "ident \<Rightarrow> string" where
  "toString (Native oid) = toHexString oid"
| "toString (Plain s) = s"

section \<open>Thrown values\<close>

text \<open>
  Every failure of the module is a \<^verbatim>\<open>throw\<close>. Three messages are template
  literals of the source; the others come from the functions of
  \<^verbatim>\<open>utils/errorMessages\<close>, which build a message from the function signature and
  the offending values: each is a constructor named as the function, applied to the
  arguments of the call. \<open>TypeError\<close> is the runtime error of JavaScript for a
  property read on \<^verbatim>\<open>null\<close> or \<^verbatim>\<open>undefined\<close>.
\<close>

datatype error =
    NotValidEmail string string
  | NotValidUsername string string
  | NotValidPassword string string
  | userWithEmailAlreadyExists string string
  | userNotCreated string string
  | objectIdNotValid string string
  | userNotFound string string
  | userNotDeletedFromDatabase string string
  | articleNotAddedToUser string string string
  | userWithEmailNotFound string string
  | userWithUsernameNotFound string string
  | TypeError

text \<open>
  The text of the three template literals:
  \<^verbatim>\<open>`${functionSignature}: '${email}' is not a valid email`\<close> and its two siblings.
\<close>

fun template_text :: "error \<Rightarrow> string option" where
  "template_text (NotValidEmail functionSignature v) =
     Some (functionSignature @ '': '' @ [CHR 0x27] @ v @ [CHR 0x27] @ '' is not a valid email'')"
| "template_text (NotValidUsername functionSignature v) =
     Some (functionSignature @ '': '' @ [CHR 0x27] @ v @ [CHR 0x27] @ '' is not a valid username'')"
| "template_text (NotValidPassword functionSignature v) =
     Some (functionSignature @ '': '' @ [CHR 0x27] @ v @ [CHR 0x27] @ '' is not a valid password'')"
| "template_text _ = None"

datatype error_class =
    ValidationError | ConflictError | NotFoundError | AuthenticationError
  | PersistenceError | Unclassified

text \<open>
  Modelled from the spec: the error taxonomy of its section 7, read onto the messages
  of \<^verbatim>\<open>utils/errorMessages\<close> (a file of the repository that is not among the
  sources). Malformed input is a validation error; an e-mail address already registered
  a conflict; no record for an identifier not found; a credential mismatch an
  authentication error; a write that is not acknowledged, or a modified or deleted count
  that is not 1, a persistence error. A \<open>TypeError\<close> is none of the module's messages.
\<close>

fun classify :: "error \<Rightarrow> error_class" where
  "classify (NotValidEmail _ _) = ValidationError"
| "classify (NotValidUsername _ _) = ValidationError"
| "classify (NotValidPassword _ _) = ValidationError"
| "classify (objectIdNotValid _ _) = ValidationError"
| "classify (userWithEmailAlreadyExists _ _) = ConflictError"
| "classify (userNotFound _ _) = NotFoundError"
| "classify (userWithEmailNotFound _ _) = AuthenticationError"
| "classify (userWithUsernameNotFound _ _) = AuthenticationError"
| "classify (userNotCreated _ _) = PersistenceError"
| "classify (userNotDeletedFromDatabase _ _) = PersistenceError"
| "classify (articleNotAddedToUser _ _ _) = PersistenceError"
| "classify TypeError = Unclassified"

section \<open>The libraries the module calls\<close>

text \<open>
  The helpers of \<^verbatim>\<open>validator\<close>, \<^verbatim>\<open>getFunctionSignature\<close> of
  \<^verbatim>\<open>utils/helpers\<close>, the two operations of \<^verbatim>\<open>ObjectId\<close> on strings and the
  digest inside bcrypt are parameters of the model: their code is not part of the
  module. \<open>bcrypt_digest env setting key\<close> stands for the 31 characters that bcrypt
  appends to the setting.
\<close>

record env =
  trim :: "string \<Rightarrow> string"
  isEmail :: "string \<Rightarrow> bool"
  isAlphanumeric :: "string \<Rightarrow> bool"
  isStrongPassword :: "string \<Rightarrow> bool"
  getFunctionSignature :: "string \<Rightarrow> string"
  ObjectId_isValid :: "string \<Rightarrow> bool"
  ObjectId_new :: "string \<Rightarrow> objectid"
  bcrypt_digest :: "string \<Rightarrow> string \<Rightarrow> string"

text \<open>
  bcrypt as the package documents it. A hash string is the setting
  (\<^verbatim>\<open>$2b$\<close>, the two digits of the cost, \<^verbatim>\<open>$\<close> and the 22 characters of the salt:
  29 characters) followed by the digest of the key under that setting. Only the first 72
  bytes of the data are the key. \<^verbatim>\<open>bcrypt.hash(data, cost)\<close> draws a fresh salt, which
  is the argument \<open>salt\<close> here. \<^verbatim>\<open>bcrypt.compare(data, encrypted)\<close> hashes
  \<open>data\<close> under the setting that \<open>encrypted\<close> starts with and compares the result
  with \<open>encrypted\<close>.
\<close>

definition two_digits :: "nat \<Rightarrow> string" where
  "two_digits n = [hexdigit (n div 10 mod 10), hexdigit (n mod 10)]"

definition gensalt :: "nat \<Rightarrow> string \<Rightarrow> string" where
  "gensalt cost salt = ''$2b$'' @ two_digits cost @ ''$'' @ salt"

definition bcrypt_raw :: "env \<Rightarrow> string \<Rightarrow> string \<Rightarrow> string" where
  "bcrypt_raw env data setting = setting @ bcrypt_digest env setting (take 72 data)"

definition bcrypt_hash :: "env \<Rightarrow> string \<Rightarrow> nat \<Rightarrow> string \<Rightarrow> string" where
  "bcrypt_hash env data cost salt = bcrypt_raw env data (gensalt cost salt)"

definition bcrypt_compare :: "env \<Rightarrow> string \<Rightarrow> string \<Rightarrow> bool" where
  "bcrypt_compare env data encrypted = (bcrypt_raw env data (take 29 encrypted) = encrypted)"

section \<open>The collection\<close>

text \<open>
  The filters the module passes to the collection, and the operations it calls on it.
  Each operation takes the state of the store and returns its result with the state
  after the call; \<open>deleteOne\<close> returns \<^verbatim>\<open>deletedCount\<close>, \<open>updateOne_addToSet\<close>
  returns \<^verbatim>\<open>modifiedCount\<close> of an update \<^verbatim>\<open>{ $addToSet: { articles: a } }\<close>.
\<close>

datatype filter = ById objectid | ByEmail string | ByUsername string | All

record insert_result =
  acknowledged :: bool
  insertedId :: "objectid option"

record 's collection =
  findOne :: "filter \<Rightarrow> 's \<Rightarrow> user option \<times> 's"
  find_toArray :: "filter \<Rightarrow> 's \<Rightarrow> user list \<times> 's"
  insertOne :: "user \<Rightarrow> 's \<Rightarrow> insert_result \<times> 's"
  deleteOne :: "filter \<Rightarrow> 's \<Rightarrow> nat \<times> 's"
  updateOne_addToSet :: "filter \<Rightarrow> string \<Rightarrow> 's \<Rightarrow> nat \<times> 's"

subsection \<open>A collection that records its calls\<close>

datatype call =
    FindOne filter | Find filter | InsertOne user | DeleteOne filter
  | UpdateOne filter string

definition logged :: "'s collection \<Rightarrow> ('s \<times> call list) collection" where
  "logged c = \<lparr>
     findOne = (\<lambda>f (s, l). case findOne c f s of (r, s') \<Rightarrow> (r, (s', l @ [FindOne f]))),
     find_toArray = (\<lambda>f (s, l). case find_toArray c f s of (r, s') \<Rightarrow> (r, (s', l @ [Find f]))),
     insertOne = (\<lambda>u (s, l). case insertOne c u s of (r, s') \<Rightarrow> (r, (s', l @ [InsertOne u]))),
     deleteOne = (\<lambda>f (s, l). case deleteOne c f s of (r, s') \<Rightarrow> (r, (s', l @ [DeleteOne f]))),
     updateOne_addToSet = (\<lambda>f a (s, l). case updateOne_addToSet c f a s of
         (r, s') \<Rightarrow> (r, (s', l @ [UpdateOne f a]))) \<rparr>"

subsection \<open>The collection in memory\<close>

text \<open>
  A store with no other client: the documents in insertion order. \<open>insertOne\<close>
  gives the document an \<^verbatim>\<open>ObjectId\<close> that no stored document has and acknowledges;
  \<open>deleteOne\<close> and \<open>updateOne\<close> act on the first document that matches.
  \<^verbatim>\<open>$addToSet\<close> creates the array when the field is absent and leaves an array that
  holds the value as it is.
\<close>

fun matches :: "filter \<Rightarrow> user \<Rightarrow> bool" where
  "matches (ById oid) u = (user_id u = Some (Native oid))"
| "matches (ByEmail e) u = (email u = e)"
| "matches (ByUsername n) u = (username u = n)"
| "matches All u = True"

definition oid_number :: "user \<Rightarrow> nat" where
  "oid_number u = (case user_id u of Some (Native (ObjectId n)) \<Rightarrow> n | _ \<Rightarrow> 0)"

definition fresh_oid :: "user list \<Rightarrow> objectid" where
  "fresh_oid docs = ObjectId (Suc (fold max (map oid_number docs) 0))"

fun delete_first :: "(user \<Rightarrow> bool) \<Rightarrow> user list \<Rightarrow> user list" where
  "delete_first P [] = []"
| "delete_first P (d # ds) = (if P d then ds else d # delete_first P ds)"

fun update_first :: "(user \<Rightarrow> bool) \<Rightarrow> (user \<Rightarrow> user) \<Rightarrow> user list \<Rightarrow> user list" where
  "update_first P g [] = []"
| "update_first P g (d # ds) = (if P d then g d # ds else d # update_first P g ds)"

definition addToSet :: "string \<Rightarrow> user \<Rightarrow> user" where
  "addToSet a u =
     (case articles u of
        None \<Rightarrow> u\<lparr>articles := Some [a]\<rparr>
      | Some xs \<Rightarrow> if a \<in> set xs then u else u\<lparr>articles := Some (xs @ [a])\<rparr>)"

definition mongo :: "(user list) collection" where
  "mongo = \<lparr>
     findOne = (\<lambda>f docs. (List.find (matches f) docs, docs)),
     find_toArray = (\<lambda>f docs. (filter (matches f) docs, docs)),
     insertOne = (\<lambda>u docs.
        (\<lparr>acknowledged = True, insertedId = Some (fresh_oid docs)\<rparr>,
         docs @ [u\<lparr>user_id := Some (Native (fresh_oid docs))\<rparr>])),
     deleteOne = (\<lambda>f docs.
        case List.find (matches f) docs of
          None \<Rightarrow> (0, docs)
        | Some d \<Rightarrow> (1, delete_first (matches f) docs)),
     updateOne_addToSet = (\<lambda>f a docs.
        case List.find (matches f) docs of
          None \<Rightarrow> (0, docs)
        | Some d \<Rightarrow> if addToSet a d = d then (0, docs)
                    else (1, update_first (matches f) (addToSet a) docs)) \<rparr>"

section \<open>The operations of the module\<close>

text \<open>
  \<^verbatim>\<open>cleanUserObject\<close> replaces \<^verbatim>\<open>_id\<close> by its string. Its argument is what
  \<^verbatim>\<open>findOne\<close> returned, so it can be \<^verbatim>\<open>null\<close>: the property read then throws.
\<close>

fun cleanUserObject :: "user option \<Rightarrow> error + user" where
  "cleanUserObject None = Inl TypeError"
| "cleanUserObject (Some userObject) =
     (case user_id userObject of
        None \<Rightarrow> Inl TypeError
      | Some i \<Rightarrow> Inr (userObject\<lparr>user_id := Some (Plain (toString i))\<rparr>))"

fun cleanUserObjects :: "user list \<Rightarrow> error + user list" where
  "cleanUserObjects [] = Inr []"
| "cleanUserObjects (u # us) =
     (case cleanUserObject (Some u) of
        Inl e \<Rightarrow> Inl e
      | Inr u' \<Rightarrow> (case cleanUserObjects us of Inl e \<Rightarrow> Inl e | Inr us' \<Rightarrow> Inr (u' # us')))"

text \<open>
  The operations take the collection that \<^verbatim>\<open>getUserCollection()\<close> returns as the
  argument \<open>userCollection\<close> and the state of the store as \<open>s\<close>, and return what
  they return or throw (\<open>Inr\<close> or \<open>Inl\<close>) with the state after their last call.
  The calls of \<^verbatim>\<open>console.log\<close> are left out. A parameter that the source
  reassigns is numbered: \<open>email0\<close> is the argument, \<open>email1\<close> the trimmed value. The
  argument \<open>salt\<close> of \<open>createUser\<close> and \<open>checkUserWithEmail\<close> is the salt that
  \<^verbatim>\<open>bcrypt.hash(..., 16)\<close> draws. In \<open>createUser\<close> the inner case on
  \<open>insertedId\<close> takes the identifier out of the option; the test before it has
  excluded its first branch.
\<close>

definition createUser ::
  "env \<Rightarrow> 's collection \<Rightarrow> string \<Rightarrow> string \<Rightarrow> string \<Rightarrow> string \<Rightarrow> 's \<Rightarrow> (error + user) \<times> 's" where
  "createUser env userCollection email0 username0 password0 salt s =
     (let functionSignature = getFunctionSignature env ''CreateUser'';
          email1 = trim env email0;
          username1 = trim env username0
      in if \<not> isEmail env email1 then (Inl (NotValidEmail functionSignature email1), s)
         else if \<not> isAlphanumeric env username1
           then (Inl (NotValidUsername functionSignature username1), s)
         else if \<not> isStrongPassword env password0
           then (Inl (NotValidPassword functionSignature password0), s)
         else
           let user = \<lparr>user_id = None, email = email1, username = username1,
                       password = bcrypt_hash env password0 16 salt, articles = None\<rparr>
           in case findOne userCollection (ByEmail email1) s of
                (emailInUse, s1) \<Rightarrow>
                  if emailInUse \<noteq> None
                  then (Inl (userWithEmailAlreadyExists functionSignature email1), s1)
                  else case insertOne userCollection user s1 of
                    (output, s2) \<Rightarrow>
                      if \<not> acknowledged output \<or> insertedId output = None
                      then (Inl (userNotCreated functionSignature email1), s2)
                      else case insertedId output of
                        None \<Rightarrow> (Inl (userNotCreated functionSignature email1), s2)
                      | Some oid \<Rightarrow>
                          (case findOne userCollection (ById oid) s2 of
                             (found, s3) \<Rightarrow> (cleanUserObject found, s3)))"

definition getUserById ::
  "env \<Rightarrow> 's collection \<Rightarrow> string \<Rightarrow> 's \<Rightarrow> (error + user) \<times> 's" where
  "getUserById env userCollection id0 s =
     (let functionSignature = getFunctionSignature env ''GetUserById''
      in if \<not> ObjectId_isValid env id0 then (Inl (objectIdNotValid functionSignature id0), s)
         else case findOne userCollection (ById (ObjectId_new env id0)) s of
           (None, s1) \<Rightarrow> (Inl (userNotFound functionSignature id0), s1)
         | (Some user, s1) \<Rightarrow> (cleanUserObject (Some user), s1))"

definition getAllUsers ::
  "env \<Rightarrow> 's collection \<Rightarrow> 's \<Rightarrow> (error + user list) \<times> 's" where
  "getAllUsers env userCollection s =
     (case find_toArray userCollection All s of (users, s1) \<Rightarrow> (cleanUserObjects users, s1))"

definition deleteUserById ::
  "env \<Rightarrow> 's collection \<Rightarrow> string \<Rightarrow> 's \<Rightarrow> (error + user) \<times> 's" where
  "deleteUserById env userCollection id0 s =
     (let functionSignature = getFunctionSignature env ''DeleteUserById''
      in if \<not> ObjectId_isValid env id0 then (Inl (objectIdNotValid functionSignature id0), s)
         else case findOne userCollection (ById (ObjectId_new env id0)) s of
           (None, s1) \<Rightarrow> (Inl (userNotFound functionSignature id0), s1)
         | (Some user, s1) \<Rightarrow>
             (case deleteOne userCollection (ById (ObjectId_new env id0)) s1 of
                (deletedCount, s2) \<Rightarrow>
                  if deletedCount \<noteq> 1
                  then (Inl (userNotDeletedFromDatabase functionSignature id0), s2)
                  else (cleanUserObject (Some user), s2)))"

definition addArticleToAuthor ::
  "env \<Rightarrow> 's collection \<Rightarrow> string \<Rightarrow> string \<Rightarrow> 's \<Rightarrow> (error + user) \<times> 's" where
  "addArticleToAuthor env userCollection userId articleId s =
     (let functionSignature = getFunctionSignature env ''AddArticleToAuthor''
      in if \<not> ObjectId_isValid env userId
           then (Inl (objectIdNotValid functionSignature userId), s)
         else if \<not> ObjectId_isValid env articleId
           then (Inl (objectIdNotValid functionSignature articleId), s)
         else case updateOne_addToSet userCollection (ById (ObjectId_new env userId)) articleId s of
           (modifiedCount, s1) \<Rightarrow>
             if modifiedCount \<noteq> 1
             then (Inl (articleNotAddedToUser functionSignature userId articleId), s1)
             else (case findOne userCollection (ById (ObjectId_new env userId)) s1 of
                     (found, s2) \<Rightarrow> (cleanUserObject found, s2)))"

text \<open>
  The two loops over the candidates, in the order the store returned them. The e-mail
  flow passes the stored hash as the data and a fresh hash of the trimmed input as the
  hash to compare with; the user name flow passes the trimmed input as the data and the
  stored hash as the hash.
\<close>

fun checkUserWithEmail_loop :: "env \<Rightarrow> string \<Rightarrow> string \<Rightarrow> string \<Rightarrow> user list \<Rightarrow> error + user" where
  "checkUserWithEmail_loop env functionSignature email1 password1 [] =
     Inl (userWithEmailNotFound functionSignature email1)"
| "checkUserWithEmail_loop env functionSignature email1 password1 (user # users) =
     (if bcrypt_compare env (password user) password1 then cleanUserObject (Some user)
      else checkUserWithEmail_loop env functionSignature email1 password1 users)"

definition checkUserWithEmail ::
  "env \<Rightarrow> 's collection \<Rightarrow> string \<Rightarrow> string \<Rightarrow> string \<Rightarrow> 's \<Rightarrow> (error + user) \<times> 's" where
  "checkUserWithEmail env userCollection email0 password0 salt s =
     (let functionSignature = getFunctionSignature env ''CreateUser'';
          email1 = trim env email0;
          password1 = bcrypt_hash env (trim env password0) 16 salt
      in if \<not> isEmail env email1 then (Inl (NotValidEmail functionSignature email1), s)
         else case find_toArray userCollection (ByEmail email1) s of
           (users, s1) \<Rightarrow>
             (checkUserWithEmail_loop env functionSignature email1 password1 users, s1))"

fun checkUserWithUsername_loop :: "env \<Rightarrow> string \<Rightarrow> string \<Rightarrow> string \<Rightarrow> user list \<Rightarrow> error + user" where
  "checkUserWithUsername_loop env functionSignature username1 password1 [] =
     Inl (userWithUsernameNotFound functionSignature username1)"
| "checkUserWithUsername_loop env functionSignature username1 password1 (user # users) =
     (if bcrypt_compare env password1 (password user) then cleanUserObject (Some user)
      else checkUserWithUsername_loop env functionSignature username1 password1 users)"

definition checkUserWithUsername ::
  "env \<Rightarrow> 's collection \<Rightarrow> string \<Rightarrow> string \<Rightarrow> 's \<Rightarrow> (error + user) \<times> 's" where
  "checkUserWithUsername env userCollection username0 password0 s =
     (let functionSignature = getFunctionSignature env ''CheckUserWithUsername'';
          username1 = trim env username0;
          password1 = trim env password0
      in if \<not> isAlphanumeric env username1
           then (Inl (NotValidUsername functionSignature username1), s)
         else case find_toArray userCollection (ByUsername username1) s of
           (users, s1) \<Rightarrow>
             (checkUserWithUsername_loop env functionSignature username1 password1 users, s1))"

section \<open>Concrete libraries and stores for the examples\<close>

text \<open>
  Executable stand-ins for the library functions, for the examples that close each
  theorem: \<open>sample_trim\<close> strips ASCII white space at both ends, the three
  validators follow the defaults of \<^verbatim>\<open>validator\<close> on ASCII input (the e-mail check
  only in outline), an identifier is valid when it is 24 hexadecimal digits, and the
  digest is a fixed rearrangement of key and setting, 31 characters long.
\<close>

definition is_space :: "char \<Rightarrow> bool" where
  "is_space c = (c \<in> set [CHR '' '', CHR 0x09, CHR 0x0A, CHR 0x0B, CHR 0x0C, CHR 0x0D])"

definition is_lower :: "char \<Rightarrow> bool" where
  "is_lower c = (c \<in> set ''abcdefghijklmnopqrstuvwxyz'')"

definition is_upper :: "char \<Rightarrow> bool" where
  "is_upper c = (c \<in> set ''ABCDEFGHIJKLMNOPQRSTUVWXYZ'')"

definition is_digit :: "char \<Rightarrow> bool" where
  "is_digit c = (c \<in> set ''0123456789'')"

definition is_symbol :: "char \<Rightarrow> bool" where
  "is_symbol c = (c \<in> set ''-#!$@%^&*()_+|~={}[]:;<>?,./ '')"

definition sample_trim :: "string \<Rightarrow> string" where
  "sample_trim s = rev (dropWhile is_space (rev (dropWhile is_space s)))"

definition sample_isEmail :: "string \<Rightarrow> bool" where
  "sample_isEmail s =
     (let local_part = takeWhile (\<lambda>c. c \<noteq> CHR ''@'') s;
          rest = dropWhile (\<lambda>c. c \<noteq> CHR ''@'') s
      in local_part \<noteq> [] \<and> rest \<noteq> [] \<and> CHR ''.'' \<in> set (tl rest) \<and>
         list_all (\<lambda>c. is_lower c \<or> is_upper c \<or> is_digit c \<or> c = CHR ''.'' \<or> c = CHR ''-'')
           (local_part @ tl rest))"

definition sample_isAlphanumeric :: "string \<Rightarrow> bool" where
  "sample_isAlphanumeric s = (s \<noteq> [] \<and> list_all (\<lambda>c. is_lower c \<or> is_upper c \<or> is_digit c) s)"

definition sample_isStrongPassword :: "string \<Rightarrow> bool" where
  "sample_isStrongPassword s =
     (8 \<le> length s \<and> list_ex is_lower s \<and> list_ex is_upper s \<and> list_ex is_digit s \<and>
      list_ex is_symbol s)"

definition hexval :: "char \<Rightarrow> nat" where
  "hexval c = length (takeWhile (\<lambda>d. d \<noteq> c) ''0123456789abcdef'')"

definition sample_isValid :: "string \<Rightarrow> bool" where
  "sample_isValid s = (length s = 24 \<and> list_all (\<lambda>c. c \<in> set ''0123456789abcdef'') s)"

definition sample_new :: "string \<Rightarrow> objectid" where
  "sample_new s = ObjectId (foldl (\<lambda>n c. 16 * n + hexval c) 0 s)"

definition sample_digest :: "string \<Rightarrow> string \<Rightarrow> string" where
  "sample_digest setting key = take 31 (rev key @ rev setting @ replicate 31 (CHR ''.''))"

definition sample_env :: env where
  "sample_env = \<lparr>
     trim = sample_trim,
     isEmail = sample_isEmail,
     isAlphanumeric = sample_isAlphanumeric,
     isStrongPassword = sample_isStrongPassword,
     getFunctionSignature = (\<lambda>name. name),
     ObjectId_isValid = sample_isValid,
     ObjectId_new = sample_new,
     bcrypt_digest = sample_digest \<rparr>"

text \<open>
  Two stores that another client writes to between the calls of one operation: in the
  first the record is gone when \<open>deleteOne\<close> runs, so that the deleted count is 0; in
  the second the record is gone when it is read by its identifier.
\<close>

definition mongo_deleted_meanwhile :: "(user list) collection" where
  "mongo_deleted_meanwhile =
     mongo\<lparr>deleteOne := (\<lambda>f docs. (0, delete_first (matches f) docs))\<rparr>"

definition mongo_gone_on_reread :: "(user list) collection" where
  "mongo_gone_on_reread =
     mongo\<lparr>findOne := (\<lambda>f docs. case f of
         ById oid \<Rightarrow> (None, delete_first (matches f) docs)
       | _ \<Rightarrow> findOne mongo f docs)\<rparr>"

text \<open>An account of the examples, as \<open>createUser\<close> stores it in the empty store.\<close>

definition ada_salt :: string where
  "ada_salt = ''N9qo8uLOickgx2ZMRZoMye''"

definition ada :: user where
  "ada = \<lparr>user_id = Some (Native (ObjectId 1)), email = ''ada@example.com'',
          username = ''ada42'',
          password = bcrypt_hash sample_env ''Str0ng!Passw0rd'' 16 ada_salt,
          articles = None\<rparr>"

text \<open>The array of articles of a record, empty when the field is absent.\<close>

definition articles_of :: "user \<Rightarrow> string list" where
  "articles_of u = (case articles u of None \<Rightarrow> [] | Some xs \<Rightarrow> xs)"

text \<open>
  A password of 73 bytes that ends in a space, and the account that \<open>createUser\<close>
  returns for it when \<open>ada\<close> is the only stored record.
\<close>

definition long_password :: string where
  "long_password = ''Str0ng!Passw0rd-Str0ng!Passw0rd-Str0ng!Passw0rd-Str0ng!Passw0rd-12345678 ''"

definition bea :: user where
  "bea = \<lparr>user_id = Some (Plain ''000000000000000000000002''), email = ''bea@example.com'',
          username = ''bea7'', password = bcrypt_hash sample_env long_password 16 ada_salt,
          articles = None\<rparr>"

section \<open>Facts about the stores and the libraries\<close>

lemma hex_of_length: "length (hex_of w n) = w"
  by (induction w arbitrary: n) auto

lemma logged_findOne:
  "findOne (logged c) f (s, l) = (fst (findOne c f s), (snd (findOne c f s), l @ [FindOne f]))"
  by (simp add: logged_def split: prod.splits)

lemma mongo_findOne: "findOne mongo f docs = (List.find (matches f) docs, docs)"
  by (simp add: mongo_def)

lemma find_in_set: "d \<in> set docs \<Longrightarrow> P d \<Longrightarrow> List.find P docs \<noteq> None"
  by (auto simp: find_None_iff)

lemma sample_sig: "getFunctionSignature sample_env name = name"
  by (simp add: sample_env_def)

lemma mongo_insertOne:
  "insertOne mongo u docs =
     (\<lparr>acknowledged = True, insertedId = Some (fresh_oid docs)\<rparr>,
      docs @ [u\<lparr>user_id := Some (Native (fresh_oid docs))\<rparr>])"
  by (simp add: mongo_def)

lemma fold_max_ge: "x \<in> set xs \<Longrightarrow> (x::nat) \<le> fold max xs a"
  by (metis Max.set_eq_fold Max_ge List.finite_set list.set_intros(2))

lemma oid_number_le_fold: "d \<in> set docs \<Longrightarrow> oid_number d \<le> fold max (map oid_number docs) a"
  by (rule fold_max_ge) simp

lemma fresh_oid_unused:
  assumes "d \<in> set docs"
  shows "user_id d \<noteq> Some (Native (fresh_oid docs))"
proof
  assume "user_id d = Some (Native (fresh_oid docs))"
  then have "oid_number d = Suc (fold max (map oid_number docs) 0)"
    by (simp add: fresh_oid_def oid_number_def)
  moreover have "oid_number d \<le> fold max (map oid_number docs) 0"
    using assms by (rule oid_number_le_fold)
  ultimately show False by simp
qed

lemma find_append_new:
  assumes "\<And>d. d \<in> set docs \<Longrightarrow> \<not> P d" and "P x"
  shows "List.find P (docs @ [x]) = Some x"
  using assms by (induction docs) auto

lemma find_fresh:
  "user_id x = Some (Native (fresh_oid docs)) \<Longrightarrow>
   List.find (matches (ById (fresh_oid docs))) (docs @ [x]) = Some x"
  by (rule find_append_new) (auto dest: fresh_oid_unused)

lemma toHexString_length: "length (toHexString oid) = 24"
  by (cases oid) (simp add: hex_of_length)

lemma createUser_steps:
  assumes "isEmail env (trim env e)" and "isAlphanumeric env (trim env u)"
    and "isStrongPassword env p"
    and "findOne c (ByEmail (trim env e)) s = (None, s1)"
    and "insertOne c \<lparr>user_id = None, email = trim env e, username = trim env u,
           password = bcrypt_hash env p 16 salt, articles = None\<rparr> s1 = (out, s2)"
    and "acknowledged out" and "insertedId out = Some oid"
    and "findOne c (ById oid) s2 = (found, s3)"
  shows "createUser env c e u p salt s = (cleanUserObject found, s3)"
  using assms by (simp add: createUser_def Let_def)

lemma mongo_deleteOne:
  "deleteOne mongo f docs =
     (case List.find (matches f) docs of None \<Rightarrow> (0, docs)
      | Some d \<Rightarrow> (1, delete_first (matches f) docs))"
  by (simp add: mongo_def)

lemma mongo_updateOne:
  "updateOne_addToSet mongo f a docs =
     (case List.find (matches f) docs of None \<Rightarrow> (0, docs)
      | Some d \<Rightarrow> if addToSet a d = d then (0, docs)
                  else (1, update_first (matches f) (addToSet a) docs))"
  by (simp add: mongo_def)

lemma find_Some_holds: "List.find P docs = Some d \<Longrightarrow> P d \<and> d \<in> set docs"
  by (induction docs) (auto split: if_splits)

lemma delete_first_split:
  "List.find P docs = Some d \<Longrightarrow>
   \<exists>xs ys. docs = xs @ d # ys \<and> delete_first P docs = xs @ ys \<and> (\<forall>x\<in>set xs. \<not> P x)"
proof (induction docs)
  case Nil
  then show ?case by simp
next
  case (Cons x docs)
  show ?case
  proof (cases "P x")
    case True
    with Cons.prems have "x = d" by simp
    with True have "x # docs = [] @ d # docs \<and> delete_first P (x # docs) = [] @ docs
        \<and> (\<forall>x\<in>set []. \<not> P x)" by simp
    then show ?thesis by blast
  next
    case False
    with Cons.prems have "List.find P docs = Some d" by simp
    from Cons.IH [OF this] obtain xs ys where
      "docs = xs @ d # ys" "delete_first P docs = xs @ ys" "\<forall>x\<in>set xs. \<not> P x" by blast
    with False have "x # docs = (x # xs) @ d # ys \<and> delete_first P (x # docs) = (x # xs) @ ys
        \<and> (\<forall>y\<in>set (x # xs). \<not> P y)" by simp
    then show ?thesis by blast
  qed
qed

lemma find_after_delete:
  assumes "List.find (matches (ById oid)) docs = Some d" and "distinct (map user_id docs)"
  shows "List.find (matches (ById oid)) (delete_first (matches (ById oid)) docs) = None"
proof -
  from delete_first_split [OF assms(1)] obtain xs ys where
    s: "docs = xs @ d # ys" "delete_first (matches (ById oid)) docs = xs @ ys"
       "\<forall>x\<in>set xs. \<not> matches (ById oid) x" by blast
  have d: "user_id d = Some (Native oid)"
    using find_Some_holds [OF assms(1)] by simp
  have "user_id d \<notin> set (map user_id ys)"
    using assms(2) s(1) by simp
  with d have "\<forall>y\<in>set ys. \<not> matches (ById oid) y" by (auto simp: image_iff)
  with s(2,3) show ?thesis by (auto simp: find_None_iff)
qed

lemma addToSet_articles:
  "articles_of (addToSet a u) = (if a \<in> set (articles_of u) then articles_of u else articles_of u @ [a])"
  by (auto simp: addToSet_def articles_of_def split: option.splits)

lemma addToSet_fields: "user_id (addToSet a u) = user_id u"
  by (auto simp: addToSet_def split: option.splits)

lemma addToSet_fixed: "addToSet a u = u \<longleftrightarrow> a \<in> set (articles_of u)"
proof
  assume "addToSet a u = u"
  then have "articles_of (addToSet a u) = articles_of u" by simp
  then show "a \<in> set (articles_of u)" by (simp add: addToSet_articles split: if_splits)
next
  assume "a \<in> set (articles_of u)"
  then show "addToSet a u = u"
    by (auto simp: addToSet_def articles_of_def split: option.splits)
qed

lemma find_update_first:
  assumes "List.find P docs = Some d" and "P (g d)"
  shows "List.find P (update_first P g docs) = Some (g d)"
  using assms by (induction docs) (auto split: if_splits)

lemma addArticle_present:
  assumes "ObjectId_isValid env uid" and "ObjectId_isValid env aid"
    and "List.find (matches (ById (ObjectId_new env uid))) docs = Some d"
    and "aid \<in> set (articles_of d)"
  shows "addArticleToAuthor env mongo uid aid docs =
           (Inl (articleNotAddedToUser (getFunctionSignature env ''AddArticleToAuthor'') uid aid), docs)"
  using assms by (simp add: addArticleToAuthor_def mongo_updateOne addToSet_fixed)

lemma addArticle_absent:
  assumes "ObjectId_isValid env uid" and "ObjectId_isValid env aid"
    and "List.find (matches (ById (ObjectId_new env uid))) docs = Some d"
    and "aid \<notin> set (articles_of d)"
  shows "addArticleToAuthor env mongo uid aid docs =
           (Inr ((addToSet aid d)\<lparr>user_id := Some (Plain (toHexString (ObjectId_new env uid)))\<rparr>),
            update_first (matches (ById (ObjectId_new env uid))) (addToSet aid) docs)"
proof -
  let ?P = "matches (ById (ObjectId_new env uid))"
  have d: "user_id d = Some (Native (ObjectId_new env uid))"
    using find_Some_holds [OF assms(3)] by simp
  then have "?P (addToSet aid d)" by (simp add: addToSet_fields)
  with assms(3) have f: "List.find ?P (update_first ?P (addToSet aid) docs) = Some (addToSet aid d)"
    by (rule find_update_first)
  show ?thesis
    using assms f d
    by (simp add: addArticleToAuthor_def mongo_updateOne addToSet_fixed mongo_findOne addToSet_fields)
qed

lemma gensalt_length: "length (gensalt cost salt) = 7 + length salt"
  by (simp add: gensalt_def two_digits_def)

lemma take_setting:
  "length salt = 22 \<Longrightarrow> take 29 (bcrypt_hash env data cost salt) = gensalt cost salt"
  by (simp add: bcrypt_hash_def bcrypt_raw_def gensalt_length)

lemma compare_hash:
  "length salt = 22 \<Longrightarrow>
   bcrypt_compare env x (bcrypt_hash env data cost salt) \<longleftrightarrow>
     bcrypt_digest env (gensalt cost salt) (take 72 x)
       = bcrypt_digest env (gensalt cost salt) (take 72 data)"
  by (simp add: bcrypt_compare_def take_setting) (simp add: bcrypt_hash_def bcrypt_raw_def)

lemma email_loop_find:
  "checkUserWithEmail_loop env sg em pw users =
     (case List.find (\<lambda>c. bcrypt_compare env (password c) pw) users of
        None \<Rightarrow> Inl (userWithEmailNotFound sg em)
      | Some c \<Rightarrow> cleanUserObject (Some c))"
  by (induction users) auto

lemma username_loop_find:
  "checkUserWithUsername_loop env sg un pw users =
     (case List.find (\<lambda>c. bcrypt_compare env pw (password c)) users of
        None \<Rightarrow> Inl (userWithUsernameNotFound sg un)
      | Some c \<Rightarrow> cleanUserObject (Some c))"
  by (induction users) auto

lemma mongo_find: "find_toArray mongo f docs = (filter (matches f) docs, docs)"
  by (simp add: mongo_def)

lemma find_append_last:
  "List.find Q (xs @ [x]) =
     (case List.find Q xs of Some c \<Rightarrow> Some c | None \<Rightarrow> if Q x then Some x else None)"
  by (induction xs) auto

lemma createUser_on_mongo:
  assumes "isEmail env (trim env e)" and "isAlphanumeric env (trim env u)"
    and "isStrongPassword env p"
    and "\<forall>d\<in>set docs. email d \<noteq> trim env e"
  shows "createUser env mongo e u p salt docs =
           (Inr \<lparr>user_id = Some (Plain (toHexString (fresh_oid docs))), email = trim env e,
                 username = trim env u, password = bcrypt_hash env p 16 salt, articles = None\<rparr>,
            docs @ [\<lparr>user_id = Some (Native (fresh_oid docs)), email = trim env e,
                 username = trim env u, password = bcrypt_hash env p 16 salt, articles = None\<rparr>])"
proof -
  let ?new = "\<lparr>user_id = None, email = trim env e, username = trim env u,
           password = bcrypt_hash env p 16 salt, articles = None\<rparr>"
  let ?stored = "?new\<lparr>user_id := Some (Native (fresh_oid docs))\<rparr>"
  have f1: "findOne mongo (ByEmail (trim env e)) docs = (None, docs)"
    using assms(4) by (auto simp: mongo_findOne find_None_iff)
  have f2: "findOne mongo (ById (fresh_oid docs)) (docs @ [?stored]) = (Some ?stored, docs @ [?stored])"
    by (simp add: mongo_findOne find_fresh)
  have "createUser env mongo e u p salt docs = (cleanUserObject (Some ?stored), docs @ [?stored])"
    by (rule createUser_steps [OF assms(1-3) f1 mongo_insertOne _ _ f2]) simp_all
  then show ?thesis by simp
qed

lemma bcrypt_hash_differs:
  assumes "take (length (gensalt cost salt)) p \<noteq> gensalt cost salt"
  shows "bcrypt_hash env p cost salt \<noteq> p"
proof
  assume "bcrypt_hash env p cost salt = p"
  then have "p = gensalt cost salt @ bcrypt_digest env (gensalt cost salt) (take 72 p)"
    by (simp add: bcrypt_hash_def bcrypt_raw_def)
  then have "take (length (gensalt cost salt)) p = gensalt cost salt"
    by (metis append_eq_conv_conj)
  with assms show False by simp
qed

lemma ada_created:
  "createUser sample_env mongo '' ada@example.com '' ''ada42'' ''Str0ng!Passw0rd'' ada_salt []
     = (Inr (ada\<lparr>user_id := Some (Plain ''000000000000000000000001'')\<rparr>), [ada])"
  by code_simp

section \<open>Creating an account\<close>

text \<open>
  C3. When the trimmed e-mail address is not an e-mail address, the trimmed user name is
  not alphanumeric or the password is not strong, \<open>createUser\<close> throws the message of
  the first check that fails, a template literal that names the field and quotes the
  offending value, and is a validation error. It calls no operation of the collection: on a collection that
  records its calls, the store and the record of calls are after the call what they were
  before it.
\<close>

theorem createUser_invalid_no_store_access:
  assumes "\<not> isEmail env (trim env e) \<or> \<not> isAlphanumeric env (trim env u) \<or>
           \<not> isStrongPassword env p"
  shows "createUser env (logged c) e u p salt (s, l) =
           (Inl (if \<not> isEmail env (trim env e)
                 then NotValidEmail (getFunctionSignature env ''CreateUser'') (trim env e)
                 else if \<not> isAlphanumeric env (trim env u)
                 then NotValidUsername (getFunctionSignature env ''CreateUser'') (trim env u)
                 else NotValidPassword (getFunctionSignature env ''CreateUser'') p), (s, l))
         \<and> (\<exists>err txt. fst (createUser env (logged c) e u p salt (s, l)) = Inl err
                  \<and> classify err = ValidationError \<and> template_text err = Some txt)"
  using assms by (auto simp: createUser_def Let_def)

theorem createUser_invalid_no_store_access_witness:
  "\<not> isEmail sample_env (trim sample_env ''not-an-email'')
   \<and> createUser sample_env (logged mongo) ''not-an-email'' ''ada42'' ''Str0ng!Passw0rd''
         ada_salt ([ada], [])
       = (Inl (NotValidEmail ''CreateUser'' ''not-an-email''), ([ada], []))"
proof -
  have t: "trim sample_env ''not-an-email'' = ''not-an-email''"
    by code_simp
  have h: "\<not> isEmail sample_env (trim sample_env ''not-an-email'')"
    by code_simp
  from createUser_invalid_no_store_access [of sample_env "''not-an-email''" "''ada42''"
      "''Str0ng!Passw0rd''" mongo ada_salt "[ada]" "[]"] h
  show ?thesis by (simp add: t sample_sig)
qed

text \<open>
  C4. When the three inputs are valid and a stored record has the trimmed e-mail
  address, \<open>createUser\<close> throws \<open>userWithEmailAlreadyExists\<close>, a conflict, whatever
  the user name and the password are. Its only call is the \<open>findOne\<close> by e-mail
  address: nothing is inserted and the documents are unchanged.
\<close>

theorem createUser_email_in_use:
  assumes "isEmail env (trim env e)" and "isAlphanumeric env (trim env u)"
    and "isStrongPassword env p"
    and "d \<in> set docs" and "email d = trim env e"
  shows "createUser env (logged mongo) e u p salt (docs, l) =
           (Inl (userWithEmailAlreadyExists (getFunctionSignature env ''CreateUser'') (trim env e)),
            (docs, l @ [FindOne (ByEmail (trim env e))]))
         \<and> classify (userWithEmailAlreadyExists (getFunctionSignature env ''CreateUser'') (trim env e))
             = ConflictError"
proof -
  have "List.find (matches (ByEmail (trim env e))) docs \<noteq> None"
    using assms(4,5) by (intro find_in_set [of d]) auto
  then show ?thesis
    using assms(1-3) by (auto simp: createUser_def Let_def logged_findOne mongo_findOne)
qed

theorem createUser_email_in_use_witness:
  "isEmail sample_env (trim sample_env ''ada@example.com '')
   \<and> isAlphanumeric sample_env (trim sample_env ''bea7'')
   \<and> isStrongPassword sample_env ''An0ther#Passw0rd''
   \<and> createUser sample_env (logged mongo) ''ada@example.com '' ''bea7'' ''An0ther#Passw0rd''
         ada_salt ([ada], [])
       = (Inl (userWithEmailAlreadyExists ''CreateUser'' ''ada@example.com''),
          ([ada], [FindOne (ByEmail ''ada@example.com'')]))"
proof -
  have t: "trim sample_env ''ada@example.com '' = ''ada@example.com''"
    by code_simp
  have h1: "isEmail sample_env (trim sample_env ''ada@example.com '')"
    by code_simp
  have h2: "isAlphanumeric sample_env (trim sample_env ''bea7'')"
    by code_simp
  have h3: "isStrongPassword sample_env ''An0ther#Passw0rd''"
    by code_simp
  have h4: "email ada = trim sample_env ''ada@example.com ''"
    by (simp add: t ada_def)
  from createUser_email_in_use [OF h1 h2 h3 _ h4, of "[ada]" ada_salt "[]"] h1 h2 h3
  show ?thesis by (simp add: t sample_sig)
qed

text \<open>
  C5. For a valid triple whose e-mail address no stored record has, \<open>createUser\<close>
  returns the record it stored, read back and with its identifier as a string of 24
  hexadecimal digits, so not the empty string. The record appended to the store holds
  the bcrypt hash of the password at cost 16 and no other form of the password. That hash
  is not the plaintext; the one input left out is a password that begins with the very
  setting (marker, cost and the 22 characters of the salt) that bcrypt draws for it.
\<close>

theorem createUser_stores_hash:
  assumes "isEmail env (trim env e)" and "isAlphanumeric env (trim env u)"
    and "isStrongPassword env p"
    and "\<forall>d\<in>set docs. email d \<noteq> trim env e"
    and "take (length (gensalt 16 salt)) p \<noteq> gensalt 16 salt"
  shows "createUser env mongo e u p salt docs =
           (Inr \<lparr>user_id = Some (Plain (toHexString (fresh_oid docs))), email = trim env e,
                 username = trim env u, password = bcrypt_hash env p 16 salt, articles = None\<rparr>,
            docs @ [\<lparr>user_id = Some (Native (fresh_oid docs)), email = trim env e,
                 username = trim env u, password = bcrypt_hash env p 16 salt, articles = None\<rparr>])
         \<and> length (toHexString (fresh_oid docs)) = 24
         \<and> bcrypt_hash env p 16 salt \<noteq> p"
  using createUser_on_mongo [OF assms(1-4)] toHexString_length bcrypt_hash_differs [OF assms(5)]
  by simp

theorem createUser_stores_hash_witness:
  "isEmail sample_env (trim sample_env '' ada@example.com '')
   \<and> isAlphanumeric sample_env (trim sample_env ''ada42'')
   \<and> isStrongPassword sample_env ''Str0ng!Passw0rd''
   \<and> take (length (gensalt 16 ada_salt)) ''Str0ng!Passw0rd'' \<noteq> gensalt 16 ada_salt
   \<and> createUser sample_env mongo '' ada@example.com '' ''ada42'' ''Str0ng!Passw0rd'' ada_salt []
       = (Inr (ada\<lparr>user_id := Some (Plain ''000000000000000000000001'')\<rparr>), [ada])
   \<and> password ada \<noteq> ''Str0ng!Passw0rd''"
proof -
  have h1: "isEmail sample_env (trim sample_env '' ada@example.com '')"
    by code_simp
  have h2: "isAlphanumeric sample_env (trim sample_env ''ada42'')"
    by code_simp
  have h3: "isStrongPassword sample_env ''Str0ng!Passw0rd''"
    by code_simp
  have h4: "\<forall>d\<in>set []. email d \<noteq> trim sample_env '' ada@example.com ''"
    by simp
  have h5: "take (length (gensalt 16 ada_salt)) ''Str0ng!Passw0rd'' \<noteq> gensalt 16 ada_salt"
    by code_simp
  have t1: "trim sample_env '' ada@example.com '' = ''ada@example.com''"
    by code_simp
  have t2: "trim sample_env ''ada42'' = ''ada42''"
    by code_simp
  have t3: "fresh_oid [] = ObjectId 1"
    by code_simp
  have t4: "hex_of 24 (Suc 0) = ''000000000000000000000001''"
    by code_simp
  from createUser_stores_hash [OF h1 h2 h3 h4 h5] h1 h2 h3 h5
  show ?thesis by (simp add: t1 t2 t3 t4 ada_def)
qed

text \<open>
  C9. The claim is that \<open>createUser\<close> returns the re-read record normalized and
  that an empty re-read is a persistence error. The first half holds: when the inputs are
  valid, no record has the e-mail address and the insert is acknowledged with an
  identifier, \<open>createUser\<close> reads the record back by that identifier and returns it
  with its identifier as a string. The second half fails on the code: the answer of
  \<open>findOne\<close> goes to \<open>cleanUserObject\<close> unchecked, so when no record is found the
  property read on \<^verbatim>\<open>null\<close> throws a \<open>TypeError\<close>, which is none of the messages
  of the module and no persistence error. \<open>getUserById\<close> and \<open>deleteUserById\<close>
  test the answer of \<open>findOne\<close> before they use it, and \<open>createUser\<close> itself
  throws \<open>userNotCreated\<close> for an insert that is not acknowledged.
\<close>

theorem createUser_reread:
  assumes "isEmail env (trim env e)" and "isAlphanumeric env (trim env u)"
    and "isStrongPassword env p"
    and "findOne c (ByEmail (trim env e)) s = (None, s1)"
    and "insertOne c \<lparr>user_id = None, email = trim env e, username = trim env u,
           password = bcrypt_hash env p 16 salt, articles = None\<rparr> s1 = (out, s2)"
    and "acknowledged out" and "insertedId out = Some oid"
    and "findOne c (ById oid) s2 = (found, s3)"
  shows "createUser env c e u p salt s = (cleanUserObject found, s3)
         \<and> (found = None \<longrightarrow> createUser env c e u p salt s = (Inl TypeError, s3)
               \<and> classify TypeError = Unclassified)
         \<and> (\<forall>d i. found = Some d \<and> user_id d = Some i \<longrightarrow>
               createUser env c e u p salt s = (Inr (d\<lparr>user_id := Some (Plain (toString i))\<rparr>), s3))"
  using createUser_steps [OF assms] by auto

theorem createUser_reread_witness:
  "isEmail sample_env (trim sample_env ''ada@example.com'')
   \<and> isAlphanumeric sample_env (trim sample_env ''ada42'')
   \<and> isStrongPassword sample_env ''Str0ng!Passw0rd''
   \<and> findOne mongo (ById (ObjectId 1)) [ada] = (Some ada, [ada])
   \<and> createUser sample_env mongo ''ada@example.com'' ''ada42'' ''Str0ng!Passw0rd'' ada_salt []
       = (Inr (ada\<lparr>user_id := Some (Plain ''000000000000000000000001'')\<rparr>), [ada])
   \<and> findOne mongo_gone_on_reread (ById (ObjectId 1)) [ada] = (None, [])
   \<and> createUser sample_env mongo_gone_on_reread ''ada@example.com'' ''ada42''
         ''Str0ng!Passw0rd'' ada_salt []
       = (Inl TypeError, [])"
proof -
  let ?new = "\<lparr>user_id = None, email = trim sample_env ''ada@example.com'',
      username = trim sample_env ''ada42'',
      password = bcrypt_hash sample_env ''Str0ng!Passw0rd'' 16 ada_salt, articles = None\<rparr>"
  let ?out = "\<lparr>acknowledged = True, insertedId = Some (ObjectId 1)\<rparr>"
  have h1: "isEmail sample_env (trim sample_env ''ada@example.com'')"
    by code_simp
  have h2: "isAlphanumeric sample_env (trim sample_env ''ada42'')"
    by code_simp
  have h3: "isStrongPassword sample_env ''Str0ng!Passw0rd''"
    by code_simp
  have a1: "findOne mongo (ByEmail (trim sample_env ''ada@example.com'')) [] = (None, [])"
    by code_simp
  have a2: "insertOne mongo ?new [] = (?out, [ada])"
    by code_simp
  have a3: "findOne mongo (ById (ObjectId 1)) [ada] = (Some ada, [ada])"
    by code_simp
  have b1: "findOne mongo_gone_on_reread (ByEmail (trim sample_env ''ada@example.com'')) []
      = (None, [])"
    by code_simp
  have b2: "insertOne mongo_gone_on_reread ?new [] = (?out, [ada])"
    by code_simp
  have b3: "findOne mongo_gone_on_reread (ById (ObjectId 1)) [ada] = (None, [])"
    by code_simp
  have i: "user_id ada = Some (Native (ObjectId 1))"
    by (simp add: ada_def)
  have t4: "hex_of 24 (Suc 0) = ''000000000000000000000001''"
    by code_simp
  from createUser_reread [OF h1 h2 h3 a1 a2 _ _ a3] i
  have found: "createUser sample_env mongo ''ada@example.com'' ''ada42'' ''Str0ng!Passw0rd''
      ada_salt [] = (Inr (ada\<lparr>user_id := Some (Plain ''000000000000000000000001'')\<rparr>), [ada])"
    by (simp add: t4)
  from createUser_reread [OF h1 h2 h3 b1 b2 _ _ b3]
  have gone: "createUser sample_env mongo_gone_on_reread ''ada@example.com'' ''ada42''
      ''Str0ng!Passw0rd'' ada_salt [] = (Inl TypeError, [])"
    by simp
  from h1 h2 h3 a3 b3 found gone show ?thesis by simp
qed

text \<open>
  The failing run of C9, on a store in which another client deleted the record between
  the insert and the re-read: the insert is acknowledged with an identifier, the re-read
  finds nothing, and what \<open>createUser\<close> throws is the \<open>TypeError\<close>, not a
  persistence error.
\<close>

theorem createUser_reread_empty_TypeError:
  "fst (insertOne mongo_gone_on_reread
          \<lparr>user_id = None, email = ''ada@example.com'', username = ''ada42'',
            password = bcrypt_hash sample_env ''Str0ng!Passw0rd'' 16 ada_salt, articles = None\<rparr> [])
      = \<lparr>acknowledged = True, insertedId = Some (ObjectId 1)\<rparr>
   \<and> fst (findOne mongo_gone_on_reread (ById (ObjectId 1)) [ada]) = None
   \<and> fst (createUser sample_env mongo_gone_on_reread ''ada@example.com'' ''ada42''
             ''Str0ng!Passw0rd'' ada_salt []) = Inl TypeError
   \<and> classify TypeError \<noteq> PersistenceError"
  by code_simp

section \<open>Reading and deleting an account\<close>

text \<open>
  C6. \<open>getUserById\<close> throws \<open>objectIdNotValid\<close>, a validation error, for an
  identifier that \<^verbatim>\<open>ObjectId.isValid\<close> refuses, such as \<^verbatim>\<open>"123"\<close>, and calls no
  operation of the collection on that path. For a well-formed identifier that no stored
  record has it throws \<open>userNotFound\<close>. For the identifier of a stored record it
  returns that record with the identifier as a plain string in place of the
  \<^verbatim>\<open>ObjectId\<close>.
\<close>

theorem getUserById_cases:
  "(\<not> ObjectId_isValid env i \<longrightarrow>
      getUserById env (logged c) i (s, l) =
        (Inl (objectIdNotValid (getFunctionSignature env ''GetUserById'') i), (s, l))
      \<and> classify (objectIdNotValid (getFunctionSignature env ''GetUserById'') i) = ValidationError)
   \<and> (ObjectId_isValid env i \<and> (\<forall>d\<in>set docs. user_id d \<noteq> Some (Native (ObjectId_new env i))) \<longrightarrow>
      getUserById env mongo i docs =
        (Inl (userNotFound (getFunctionSignature env ''GetUserById'') i), docs)
      \<and> classify (userNotFound (getFunctionSignature env ''GetUserById'') i) = NotFoundError)
   \<and> (ObjectId_isValid env i \<and> List.find (matches (ById (ObjectId_new env i))) docs = Some d \<longrightarrow>
      getUserById env mongo i docs =
        (Inr (d\<lparr>user_id := Some (Plain (toHexString (ObjectId_new env i)))\<rparr>), docs)
      \<and> d \<in> set docs \<and> user_id d = Some (Native (ObjectId_new env i)))"
proof (intro conjI impI)
  assume "\<not> ObjectId_isValid env i"
  then show "getUserById env (logged c) i (s, l) =
        (Inl (objectIdNotValid (getFunctionSignature env ''GetUserById'') i), (s, l))"
    by (simp add: getUserById_def)
next
  show "classify (objectIdNotValid (getFunctionSignature env ''GetUserById'') i) = ValidationError"
    by simp
next
  assume a: "ObjectId_isValid env i \<and> (\<forall>d\<in>set docs. user_id d \<noteq> Some (Native (ObjectId_new env i)))"
  then have "List.find (matches (ById (ObjectId_new env i))) docs = None"
    by (auto simp: find_None_iff)
  with a show "getUserById env mongo i docs =
        (Inl (userNotFound (getFunctionSignature env ''GetUserById'') i), docs)"
    by (simp add: getUserById_def mongo_findOne)
next
  show "classify (userNotFound (getFunctionSignature env ''GetUserById'') i) = NotFoundError"
    by simp
next
  assume a: "ObjectId_isValid env i \<and> List.find (matches (ById (ObjectId_new env i))) docs = Some d"
  then have d: "user_id d = Some (Native (ObjectId_new env i))" "d \<in> set docs"
    using find_Some_holds [of "matches (ById (ObjectId_new env i))" docs d] by simp_all
  from a d show "getUserById env mongo i docs =
        (Inr (d\<lparr>user_id := Some (Plain (toHexString (ObjectId_new env i)))\<rparr>), docs)"
    by (simp add: getUserById_def mongo_findOne)
  from d show "d \<in> set docs" "user_id d = Some (Native (ObjectId_new env i))" by simp_all
qed

theorem getUserById_cases_witness:
  "\<not> ObjectId_isValid sample_env ''123''
   \<and> getUserById sample_env (logged mongo) ''123'' ([ada], [])
       = (Inl (objectIdNotValid ''GetUserById'' ''123''), ([ada], []))
   \<and> ObjectId_isValid sample_env ''000000000000000000000002''
   \<and> getUserById sample_env mongo ''000000000000000000000002'' [ada]
       = (Inl (userNotFound ''GetUserById'' ''000000000000000000000002''), [ada])
   \<and> ObjectId_isValid sample_env ''000000000000000000000001''
   \<and> List.find (matches (ById (ObjectId_new sample_env ''000000000000000000000001''))) [ada]
       = Some ada
   \<and> getUserById sample_env mongo ''000000000000000000000001'' [ada]
       = (Inr (ada\<lparr>user_id := Some (Plain ''000000000000000000000001'')\<rparr>), [ada])"
proof -
  have a: "\<not> ObjectId_isValid sample_env ''123''"
    by code_simp
  have b1: "ObjectId_isValid sample_env ''000000000000000000000002''"
    by code_simp
  have n2: "ObjectId_new sample_env ''000000000000000000000002'' = ObjectId 2"
    by code_simp
  have b2: "\<forall>d\<in>set [ada]. user_id d \<noteq>
      Some (Native (ObjectId_new sample_env ''000000000000000000000002''))"
    by (simp add: n2 ada_def)
  have c1: "ObjectId_isValid sample_env ''000000000000000000000001''"
    by code_simp
  have c2: "List.find (matches (ById (ObjectId_new sample_env ''000000000000000000000001''))) [ada]
      = Some ada"
    by code_simp
  have n1: "toHexString (ObjectId_new sample_env ''000000000000000000000001'')
      = ''000000000000000000000001''"
    by code_simp
  have pb: "ObjectId_isValid sample_env ''000000000000000000000002''
      \<and> (\<forall>d\<in>set [ada]. user_id d \<noteq>
            Some (Native (ObjectId_new sample_env ''000000000000000000000002'')))"
    using b1 b2 by blast
  have pc: "ObjectId_isValid sample_env ''000000000000000000000001''
      \<and> List.find (matches (ById (ObjectId_new sample_env ''000000000000000000000001''))) [ada]
          = Some ada"
    using c1 c2 by blast
  note A = getUserById_cases [where env = sample_env and i = "''123''" and c = mongo
      and s = "[ada]" and l = "[]", THEN conjunct1, THEN mp, OF a, unfolded sample_sig]
  note B = getUserById_cases [where env = sample_env and i = "''000000000000000000000002''"
      and docs = "[ada]", THEN conjunct2, THEN conjunct1, THEN mp, OF pb, unfolded sample_sig]
  note C = getUserById_cases [where env = sample_env and i = "''000000000000000000000001''"
      and docs = "[ada]" and d = ada, THEN conjunct2, THEN conjunct2, THEN mp, OF pc,
      unfolded n1]
  from A have ra: "getUserById sample_env (logged mongo) ''123'' ([ada], [])
      = (Inl (objectIdNotValid ''GetUserById'' ''123''), ([ada], []))"
    by blast
  from B have rb: "getUserById sample_env mongo ''000000000000000000000002'' [ada]
      = (Inl (userNotFound ''GetUserById'' ''000000000000000000000002''), [ada])"
    by blast
  from C have rc: "getUserById sample_env mongo ''000000000000000000000001'' [ada]
      = (Inr (ada\<lparr>user_id := Some (Plain ''000000000000000000000001'')\<rparr>), [ada])"
    by blast
  from a b1 c1 c2 ra rb rc show ?thesis by blast
qed

text \<open>
  C7. For a well-formed identifier whose record is stored, in a store whose identifiers
  are distinct, \<open>deleteUserById\<close> removes that one record and no other and returns it
  as it was read before the delete, with its identifier as a string; \<open>getUserById\<close>
  with the same identifier then throws \<open>userNotFound\<close>. On any collection, when the
  record is found and the deleted count that \<open>deleteOne\<close> reports is not 1, it throws
  \<open>userNotDeletedFromDatabase\<close>, a persistence error.
\<close>

theorem deleteUserById_cases:
  assumes "ObjectId_isValid env i"
  shows "(List.find (matches (ById (ObjectId_new env i))) docs = Some d \<and> distinct (map user_id docs) \<longrightarrow>
           deleteUserById env mongo i docs =
             (Inr (d\<lparr>user_id := Some (Plain (toHexString (ObjectId_new env i)))\<rparr>),
              delete_first (matches (ById (ObjectId_new env i))) docs)
           \<and> (\<exists>xs ys. docs = xs @ d # ys
                 \<and> delete_first (matches (ById (ObjectId_new env i))) docs = xs @ ys)
           \<and> getUserById env mongo i (delete_first (matches (ById (ObjectId_new env i))) docs) =
               (Inl (userNotFound (getFunctionSignature env ''GetUserById'') i),
                delete_first (matches (ById (ObjectId_new env i))) docs))
       \<and> (findOne c (ById (ObjectId_new env i)) s = (Some d, s1)
           \<and> deleteOne c (ById (ObjectId_new env i)) s1 = (n, s2) \<and> n \<noteq> 1 \<longrightarrow>
           deleteUserById env c i s =
             (Inl (userNotDeletedFromDatabase (getFunctionSignature env ''DeleteUserById'') i), s2)
           \<and> classify (userNotDeletedFromDatabase (getFunctionSignature env ''DeleteUserById'') i)
               = PersistenceError)"
proof (intro conjI impI)
  let ?P = "matches (ById (ObjectId_new env i))"
  assume a: "List.find ?P docs = Some d \<and> distinct (map user_id docs)"
  then have d: "user_id d = Some (Native (ObjectId_new env i))"
    using find_Some_holds [of ?P docs d] by simp
  from a d assms show "deleteUserById env mongo i docs =
      (Inr (d\<lparr>user_id := Some (Plain (toHexString (ObjectId_new env i)))\<rparr>), delete_first ?P docs)"
    by (simp add: deleteUserById_def mongo_findOne mongo_deleteOne)
  from a show "\<exists>xs ys. docs = xs @ d # ys \<and> delete_first ?P docs = xs @ ys"
    using delete_first_split [of ?P docs d] by blast
  from a have "List.find ?P (delete_first ?P docs) = None"
    using find_after_delete by blast
  with assms show "getUserById env mongo i (delete_first ?P docs) =
      (Inl (userNotFound (getFunctionSignature env ''GetUserById'') i), delete_first ?P docs)"
    by (simp add: getUserById_def mongo_findOne)
next
  assume "findOne c (ById (ObjectId_new env i)) s = (Some d, s1)
           \<and> deleteOne c (ById (ObjectId_new env i)) s1 = (n, s2) \<and> n \<noteq> 1"
  with assms show "deleteUserById env c i s =
      (Inl (userNotDeletedFromDatabase (getFunctionSignature env ''DeleteUserById'') i), s2)"
    by (simp add: deleteUserById_def)
next
  show "classify (userNotDeletedFromDatabase (getFunctionSignature env ''DeleteUserById'') i)
               = PersistenceError" by simp
qed

theorem deleteUserById_cases_witness:
  "ObjectId_isValid sample_env ''000000000000000000000001''
   \<and> List.find (matches (ById (ObjectId_new sample_env ''000000000000000000000001''))) [ada]
       = Some ada
   \<and> distinct (map user_id [ada])
   \<and> deleteUserById sample_env mongo ''000000000000000000000001'' [ada]
       = (Inr (ada\<lparr>user_id := Some (Plain ''000000000000000000000001'')\<rparr>), [])
   \<and> getUserById sample_env mongo ''000000000000000000000001'' []
       = (Inl (userNotFound ''GetUserById'' ''000000000000000000000001''), [])
   \<and> deleteOne mongo_deleted_meanwhile
         (ById (ObjectId_new sample_env ''000000000000000000000001'')) [ada] = (0, [])
   \<and> deleteUserById sample_env mongo_deleted_meanwhile ''000000000000000000000001'' [ada]
       = (Inl (userNotDeletedFromDatabase ''DeleteUserById'' ''000000000000000000000001''), [])"
proof -
  let ?i = "''000000000000000000000001''"
  have v: "ObjectId_isValid sample_env ?i"
    by code_simp
  have f: "List.find (matches (ById (ObjectId_new sample_env ?i))) [ada] = Some ada"
    by code_simp
  have dl: "delete_first (matches (ById (ObjectId_new sample_env ?i))) [ada] = []"
    by code_simp
  have n1: "toHexString (ObjectId_new sample_env ?i) = ?i"
    by code_simp
  have g1: "findOne mongo_deleted_meanwhile (ById (ObjectId_new sample_env ?i)) [ada]
      = (Some ada, [ada])"
    by code_simp
  have g2: "deleteOne mongo_deleted_meanwhile (ById (ObjectId_new sample_env ?i)) [ada] = (0, [])"
    by code_simp
  have pa: "List.find (matches (ById (ObjectId_new sample_env ?i))) [ada] = Some ada
      \<and> distinct (map user_id [ada])"
    using f by simp
  have pb: "findOne mongo_deleted_meanwhile (ById (ObjectId_new sample_env ?i)) [ada]
        = (Some ada, [ada])
      \<and> deleteOne mongo_deleted_meanwhile (ById (ObjectId_new sample_env ?i)) [ada] = (0, [])
      \<and> (0::nat) \<noteq> 1"
    using g1 g2 by simp
  note A = deleteUserById_cases [OF v, where docs = "[ada]" and d = ada,
      THEN conjunct1, THEN mp, OF pa, unfolded dl n1 sample_sig]
  note B = deleteUserById_cases [OF v, where c = mongo_deleted_meanwhile and s = "[ada]"
      and d = ada and ?s1.0 = "[ada]" and n = 0 and ?s2.0 = "[]",
      THEN conjunct2, THEN mp, OF pb, unfolded sample_sig]
  from A have ra: "deleteUserById sample_env mongo ?i [ada]
        = (Inr (ada\<lparr>user_id := Some (Plain ?i)\<rparr>), [])
      \<and> getUserById sample_env mongo ?i [] = (Inl (userNotFound ''GetUserById'' ?i), [])"
    by blast
  from B have rb: "deleteUserById sample_env mongo_deleted_meanwhile ?i [ada]
      = (Inl (userNotDeletedFromDatabase ''DeleteUserById'' ?i), [])"
    by blast
  from v f g2 ra rb show ?thesis by simp
qed

section \<open>Adding an article\<close>

text \<open>
  C8. Let the two identifiers be well formed, the user's record be stored and the
  article identifier occur at most once in its articles (as it does when the articles
  hold no duplicate). After two calls of \<open>addArticleToAuthor\<close> with the same pair the
  record holds the article identifier exactly once. The second call changes nothing: the
  modified count is 0, and it throws \<open>articleNotAddedToUser\<close>, a persistence error.
\<close>

theorem addArticleToAuthor_twice:
  assumes "ObjectId_isValid env uid" and "ObjectId_isValid env aid"
    and "List.find (matches (ById (ObjectId_new env uid))) docs = Some d"
    and "count_list (articles_of d) aid \<le> 1"
  shows "(let docs1 = snd (addArticleToAuthor env mongo uid aid docs);
              second = addArticleToAuthor env mongo uid aid docs1
          in second = (Inl (articleNotAddedToUser
                              (getFunctionSignature env ''AddArticleToAuthor'') uid aid), docs1)
             \<and> classify (articleNotAddedToUser
                              (getFunctionSignature env ''AddArticleToAuthor'') uid aid)
                 = PersistenceError
             \<and> fst (updateOne_addToSet mongo (ById (ObjectId_new env uid)) aid docs1) = 0
             \<and> List.find (matches (ById (ObjectId_new env uid))) (snd second) = Some (addToSet aid d)
             \<and> count_list (articles_of (addToSet aid d)) aid = 1)"
proof -
  let ?P = "matches (ById (ObjectId_new env uid))"
  let ?docs1 = "snd (addArticleToAuthor env mongo uid aid docs)"
  have d: "?P d" using find_Some_holds [OF assms(3)] by simp
  have f1: "List.find ?P ?docs1 = Some (addToSet aid d)"
  proof (cases "aid \<in> set (articles_of d)")
    case True
    then show ?thesis
      using addArticle_present [OF assms(1-3)] assms(3) by (simp add: addToSet_fixed [THEN iffD2])
  next
    case False
    from d have "?P (addToSet aid d)" by (simp add: addToSet_fields)
    with assms(3) have "List.find ?P (update_first ?P (addToSet aid) docs) = Some (addToSet aid d)"
      by (rule find_update_first)
    then show ?thesis
      using addArticle_absent [OF assms(1-3) False] by simp
  qed
  have "aid \<in> set (articles_of (addToSet aid d))"
    by (simp add: addToSet_articles)
  from addArticle_present [OF assms(1,2) f1 this]
  have second: "addArticleToAuthor env mongo uid aid ?docs1 =
      (Inl (articleNotAddedToUser (getFunctionSignature env ''AddArticleToAuthor'') uid aid), ?docs1)" .
  have cnt: "count_list (articles_of (addToSet aid d)) aid = 1"
  proof (cases "aid \<in> set (articles_of d)")
    case True
    then have "count_list (articles_of d) aid \<noteq> 0" by (simp add: count_list_0_iff)
    with assms(4) True show ?thesis by (simp add: addToSet_articles)
  next
    case False
    then show ?thesis by (simp add: addToSet_articles count_list_0_iff)
  qed
  have "addToSet aid (addToSet aid d) = addToSet aid d"
    by (simp add: addToSet_fixed addToSet_articles)
  with f1 have upd: "fst (updateOne_addToSet mongo (ById (ObjectId_new env uid)) aid ?docs1) = 0"
    by (simp add: mongo_updateOne)
  show ?thesis using second f1 cnt upd by (simp add: Let_def)
qed

theorem addArticleToAuthor_twice_witness:
  "ObjectId_isValid sample_env ''000000000000000000000001''
   \<and> ObjectId_isValid sample_env ''00000000000000000000000a''
   \<and> List.find (matches (ById (ObjectId_new sample_env ''000000000000000000000001''))) [ada]
       = Some ada
   \<and> count_list (articles_of ada) ''00000000000000000000000a'' \<le> 1
   \<and> snd (addArticleToAuthor sample_env mongo ''000000000000000000000001''
            ''00000000000000000000000a'' [ada])
       = [ada\<lparr>articles := Some [''00000000000000000000000a'']\<rparr>]
   \<and> addArticleToAuthor sample_env mongo ''000000000000000000000001''
         ''00000000000000000000000a'' [ada\<lparr>articles := Some [''00000000000000000000000a'']\<rparr>]
       = (Inl (articleNotAddedToUser ''AddArticleToAuthor'' ''000000000000000000000001''
                 ''00000000000000000000000a''),
          [ada\<lparr>articles := Some [''00000000000000000000000a'']\<rparr>])
   \<and> count_list (articles_of (ada\<lparr>articles := Some [''00000000000000000000000a'']\<rparr>))
         ''00000000000000000000000a'' = 1"
proof -
  let ?u = "''000000000000000000000001''"
  let ?a = "''00000000000000000000000a''"
  have v1: "ObjectId_isValid sample_env ?u"
    by code_simp
  have v2: "ObjectId_isValid sample_env ?a"
    by code_simp
  have f: "List.find (matches (ById (ObjectId_new sample_env ?u))) [ada] = Some ada"
    by code_simp
  have c: "count_list (articles_of ada) ?a \<le> 1"
    by (simp add: articles_of_def ada_def)
  have s1: "snd (addArticleToAuthor sample_env mongo ?u ?a [ada]) = [ada\<lparr>articles := Some [?a]\<rparr>]"
    by code_simp
  have s2: "addToSet ?a ada = ada\<lparr>articles := Some [?a]\<rparr>"
    by (simp add: addToSet_def ada_def)
  from addArticleToAuthor_twice [OF v1 v2 f c] v1 v2 f c s1
  show ?thesis by (simp add: Let_def s2 sample_sig)
qed

section \<open>Authentication\<close>

text \<open>
  What the two flows accept, for every digest. The e-mail flow returns the first
  candidate whose stored hash, read as a password, has the digest of the supplied
  password under the fresh salt; the user name flow returns the first candidate whose
  stored hash is the hash of the trimmed password under the setting stored with it.
\<close>

lemma checkUserWithEmail_on_mongo:
  assumes "isEmail env (trim env e)" and "length salt = 22"
  shows "checkUserWithEmail env mongo e p salt docs =
           (case List.find
                   (\<lambda>c. bcrypt_digest env (gensalt 16 salt) (take 72 (password c))
                          = bcrypt_digest env (gensalt 16 salt) (take 72 (trim env p)))
                   (filter (matches (ByEmail (trim env e))) docs) of
              None \<Rightarrow> Inl (userWithEmailNotFound (getFunctionSignature env ''CreateUser'') (trim env e))
            | Some c \<Rightarrow> cleanUserObject (Some c),
            docs)"
  using assms
  by (simp add: checkUserWithEmail_def Let_def mongo_find email_loop_find compare_hash)

lemma checkUserWithUsername_on_mongo:
  assumes "isAlphanumeric env (trim env u)"
  shows "checkUserWithUsername env mongo u p docs =
           (case List.find
                   (\<lambda>c. bcrypt_raw env (trim env p) (take 29 (password c)) = password c)
                   (filter (matches (ByUsername (trim env u))) docs) of
              None \<Rightarrow> Inl (userWithUsernameNotFound
                             (getFunctionSignature env ''CheckUserWithUsername'') (trim env u))
            | Some c \<Rightarrow> cleanUserObject (Some c),
            docs)"
  using assms
  by (simp add: checkUserWithUsername_def Let_def mongo_find username_loop_find
      bcrypt_compare_def)

lemma checkUserWithEmail_stored_hash:
  assumes "isEmail env (trim env e)" and "length salt = 22"
    and "filter (matches (ByEmail (trim env e))) docs = d # rest"
    and "trim env (password d) = password d"
  shows "checkUserWithEmail env mongo e (password d) salt docs = (cleanUserObject (Some d), docs)"
  using assms by (simp add: checkUserWithEmail_on_mongo)

lemma checkUserWithEmail_no_collision:
  assumes "isEmail env (trim env e)" and "length salt = 22"
    and "\<forall>c\<in>set docs. email c = trim env e \<longrightarrow>
           bcrypt_digest env (gensalt 16 salt) (take 72 (password c))
             \<noteq> bcrypt_digest env (gensalt 16 salt) (take 72 (trim env p))"
  shows "checkUserWithEmail env mongo e p salt docs =
           (Inl (userWithEmailNotFound (getFunctionSignature env ''CreateUser'') (trim env e)), docs)"
proof -
  have "List.find
          (\<lambda>c. bcrypt_digest env (gensalt 16 salt) (take 72 (password c))
                 = bcrypt_digest env (gensalt 16 salt) (take 72 (trim env p)))
          (filter (matches (ByEmail (trim env e))) docs) = None"
    using assms(3) by (auto simp: find_None_iff)
  then show ?thesis
    using assms(1,2) by (simp add: checkUserWithEmail_on_mongo)
qed

text \<open>
  C1. The claim is that \<open>checkUserWithEmail\<close> returns the user for the right
  password. On the code it does not: for the account \<open>ada\<close>, stored by
  \<open>createUser\<close> with the password \<^verbatim>\<open>Str0ng!Passw0rd\<close>, the call with her e-mail
  address and that password throws \<open>userWithEmailNotFound\<close>, the message of a wrong
  password and of an unknown address. The flow hashes the supplied password under a fresh
  salt and hands \<^verbatim>\<open>bcrypt.compare\<close> the stored hash as the data.
\<close>

theorem checkUserWithEmail_rejects_correct_password:
  "checkUserWithEmail sample_env mongo ''ada@example.com'' ''Str0ng!Passw0rd''
       ''KIXQPmtmCsWAtzOvNJcGvO'' [ada]
     = (Inl (userWithEmailNotFound ''CreateUser'' ''ada@example.com''), [ada])"
  by code_simp

text \<open>
  C2. The claim is that both flows hand \<^verbatim>\<open>bcrypt.compare\<close> the supplied password as
  the data and the stored hash as the hash, and never hash the supplied password again.
  The user name flow does; the e-mail flow hashes the supplied password and passes the
  stored hash as the data. So the e-mail flow returns \<open>ada\<close> to a caller who supplies
  her stored hash as the password, which the user name flow refuses, and the user name
  flow returns her for her password.
\<close>

theorem checkUserWithEmail_accepts_stored_hash:
  "checkUserWithEmail sample_env mongo ''ada@example.com'' (password ada)
       ''KIXQPmtmCsWAtzOvNJcGvO'' [ada]
     = (Inr (ada\<lparr>user_id := Some (Plain ''000000000000000000000001'')\<rparr>), [ada])
   \<and> checkUserWithUsername sample_env mongo ''ada42'' (password ada) [ada]
     = (Inl (userWithUsernameNotFound ''CheckUserWithUsername'' ''ada42''), [ada])
   \<and> checkUserWithUsername sample_env mongo ''ada42'' ''Str0ng!Passw0rd'' [ada]
     = (Inr (ada\<lparr>user_id := Some (Plain ''000000000000000000000001'')\<rparr>), [ada])"
  by code_simp

text \<open>
  C10, as the code has it. \<open>checkUserWithUsername\<close> trims the supplied password and
  \<open>createUser\<close> hashes it untrimmed, and bcrypt reads the first 72 bytes only. Take a
  valid triple whose e-mail address is free and a salt of 22 characters, create the
  account and call \<open>checkUserWithUsername\<close> with the same user name and password.
  When the digests of the first 72 bytes of the trimmed and of the untrimmed password
  differ, the call throws \<open>userWithUsernameNotFound\<close> or returns a record that was
  stored before, never the new account. When the first 72 bytes of the trimmed and of the
  untrimmed password are the same and no older record has the user name, the call returns
  the new account.
\<close>

theorem checkUserWithUsername_after_createUser:
  assumes "isEmail env (trim env e)" and "isAlphanumeric env (trim env u)"
    and "isStrongPassword env p"
    and "\<forall>d\<in>set docs. email d \<noteq> trim env e"
    and "length salt = 22"
  shows "(let created = createUser env mongo e u p salt docs;
              r = fst (checkUserWithUsername env mongo u p (snd created))
          in (bcrypt_digest env (gensalt 16 salt) (take 72 (trim env p))
                \<noteq> bcrypt_digest env (gensalt 16 salt) (take 72 p) \<longrightarrow>
                r = Inl (userWithUsernameNotFound
                           (getFunctionSignature env ''CheckUserWithUsername'') (trim env u))
                \<or> (\<exists>c\<in>set docs. r = cleanUserObject (Some c)))
           \<and> (take 72 (trim env p) = take 72 p \<and> (\<forall>d\<in>set docs. username d \<noteq> trim env u) \<longrightarrow>
                r = fst created \<and> (\<exists>x. r = Inr x)))"
proof -
  let ?stored = "\<lparr>user_id = Some (Native (fresh_oid docs)), email = trim env e,
                 username = trim env u, password = bcrypt_hash env p 16 salt, articles = None\<rparr>"
  let ?Q = "\<lambda>c. bcrypt_compare env (trim env p) (password c)"
  let ?sg = "getFunctionSignature env ''CheckUserWithUsername''"
  let ?old = "filter (matches (ByUsername (trim env u))) docs"
  note created = createUser_on_mongo [OF assms(1-4), of salt]
  have run: "fst (checkUserWithUsername env mongo u p (docs @ [?stored])) =
      (case List.find ?Q (?old @ [?stored]) of
         None \<Rightarrow> Inl (userWithUsernameNotFound ?sg (trim env u))
       | Some c \<Rightarrow> cleanUserObject (Some c))"
    using assms(2) by (simp add: checkUserWithUsername_def Let_def mongo_find username_loop_find)
  have q: "?Q ?stored \<longleftrightarrow> bcrypt_digest env (gensalt 16 salt) (take 72 (trim env p))
                = bcrypt_digest env (gensalt 16 salt) (take 72 p)"
    using assms(5) by (simp add: compare_hash)
  have neg: "fst (checkUserWithUsername env mongo u p (docs @ [?stored])) =
                Inl (userWithUsernameNotFound ?sg (trim env u))
              \<or> (\<exists>c\<in>set docs. fst (checkUserWithUsername env mongo u p (docs @ [?stored]))
                     = cleanUserObject (Some c))"
    if "\<not> ?Q ?stored"
  proof (cases "List.find ?Q ?old")
    case None
    with that show ?thesis by (simp add: run find_append_last)
  next
    case (Some c)
    then have "c \<in> set docs" using find_Some_holds [of ?Q ?old c] by simp
    with Some show ?thesis by (auto simp: run find_append_last)
  qed
  have pos: "fst (checkUserWithUsername env mongo u p (docs @ [?stored])) =
                cleanUserObject (Some ?stored)"
    if "?Q ?stored" and "\<forall>d\<in>set docs. username d \<noteq> trim env u"
  proof -
    from that(2) have "?old = []" by (auto simp: filter_empty_conv)
    with that(1) show ?thesis by (simp add: run)
  qed
  show ?thesis
    unfolding Let_def created
    using neg pos q by auto
qed

theorem checkUserWithUsername_after_createUser_witness:
  "isEmail sample_env (trim sample_env ''cy@example.com'')
   \<and> isAlphanumeric sample_env (trim sample_env ''cy9'')
   \<and> isStrongPassword sample_env '' Str0ng!Passw0rd''
   \<and> length ada_salt = 22
   \<and> bcrypt_digest sample_env (gensalt 16 ada_salt) (take 72 (trim sample_env '' Str0ng!Passw0rd''))
       \<noteq> bcrypt_digest sample_env (gensalt 16 ada_salt) (take 72 '' Str0ng!Passw0rd'')
   \<and> fst (checkUserWithUsername sample_env mongo ''cy9'' '' Str0ng!Passw0rd''
            (snd (createUser sample_env mongo ''cy@example.com'' ''cy9'' '' Str0ng!Passw0rd''
                    ada_salt [])))
       = Inl (userWithUsernameNotFound ''CheckUserWithUsername'' ''cy9'')
   \<and> isEmail sample_env (trim sample_env ''bea@example.com'')
   \<and> isAlphanumeric sample_env (trim sample_env ''bea7'')
   \<and> isStrongPassword sample_env long_password
   \<and> take 72 (trim sample_env long_password) = take 72 long_password
   \<and> fst (checkUserWithUsername sample_env mongo ''bea7'' long_password
            (snd (createUser sample_env mongo ''bea@example.com'' ''bea7'' long_password
                    ada_salt [ada])))
       = Inr bea"
proof -
  let ?p = "'' Str0ng!Passw0rd''"
  have n1: "isEmail sample_env (trim sample_env ''cy@example.com'')"
    by code_simp
  have n2: "isAlphanumeric sample_env (trim sample_env ''cy9'')"
    by code_simp
  have n3: "isStrongPassword sample_env ?p"
    by code_simp
  have n4: "\<forall>d\<in>set []. email d \<noteq> trim sample_env ''cy@example.com''"
    by simp
  have len: "length ada_salt = 22"
    by (simp add: ada_salt_def)
  have n5: "bcrypt_digest sample_env (gensalt 16 ada_salt) (take 72 (trim sample_env ?p))
      \<noteq> bcrypt_digest sample_env (gensalt 16 ada_salt) (take 72 ?p)"
    by code_simp
  have tn: "trim sample_env ''cy9'' = ''cy9''"
    by code_simp
  note N = checkUserWithUsername_after_createUser [OF n1 n2 n3 n4 len, unfolded Let_def,
      THEN conjunct1, THEN mp, OF n5, unfolded sample_sig tn]
  from N have rn: "fst (checkUserWithUsername sample_env mongo ''cy9'' ?p
        (snd (createUser sample_env mongo ''cy@example.com'' ''cy9'' ?p ada_salt [])))
      = Inl (userWithUsernameNotFound ''CheckUserWithUsername'' ''cy9'')"
    by simp
  have p1: "isEmail sample_env (trim sample_env ''bea@example.com'')"
    by code_simp
  have p2: "isAlphanumeric sample_env (trim sample_env ''bea7'')"
    by code_simp
  have p3: "isStrongPassword sample_env long_password"
    by code_simp
  have te: "trim sample_env ''bea@example.com'' = ''bea@example.com''"
    by code_simp
  have tu: "trim sample_env ''bea7'' = ''bea7''"
    by code_simp
  have p4: "\<forall>d\<in>set [ada]. email d \<noteq> trim sample_env ''bea@example.com''"
    by (simp add: te ada_def)
  have p5: "take 72 (trim sample_env long_password) = take 72 long_password"
    by code_simp
  have p6: "take 72 (trim sample_env long_password) = take 72 long_password
      \<and> (\<forall>d\<in>set [ada]. username d \<noteq> trim sample_env ''bea7'')"
    using p5 by (simp add: tu ada_def)
  have cr: "fst (createUser sample_env mongo ''bea@example.com'' ''bea7'' long_password
      ada_salt [ada]) = Inr bea"
    by code_simp
  note P = checkUserWithUsername_after_createUser [OF p1 p2 p3 p4 len, unfolded Let_def,
      THEN conjunct2, THEN mp, OF p6, THEN conjunct1, unfolded cr]
  from n1 n2 n3 len n5 rn p1 p2 p3 p5 P show ?thesis by blast
qed

text \<open>
  The claim C10 as it is worded, that no password with white space at an end lets
  \<open>checkUserWithUsername\<close> return the account created with it, fails for
  \<open>long_password\<close>: it passes the strength check, its last byte is a space that
  trimming removes, the space is byte 73, and the call returns the account.
\<close>

theorem checkUserWithUsername_long_password_counterexample:
  "isStrongPassword sample_env long_password
   \<and> trim sample_env long_password \<noteq> long_password
   \<and> fst (createUser sample_env mongo ''bea@example.com'' ''bea7'' long_password ada_salt [ada])
       = Inr bea
   \<and> fst (checkUserWithUsername sample_env mongo ''bea7'' long_password
            (snd (createUser sample_env mongo ''bea@example.com'' ''bea7'' long_password ada_salt [ada])))
       = Inr bea"
  by code_simp

end
